theory Spec2Isabelle
  imports Main
begin

section \<open>Data model\<close>

text \<open>
  A session is an opaque handle of one backend connection (a pymysql Connection object).
  Configuration dictionaries map key names to values. The fixed Chinese text of every
  log and error message of the source is rendered by a short English phrase; the
  interpolated parts (\<open>str(e)\<close>, the timeout, the field name) are kept as they are.
\<close>

type_synonym session = nat

datatype cfgval = Str string | Num int

type_synonym config = "string \<rightharpoonup> cfgval"
type_synonym params = "cfgval list"
type_synonym row = "(string \<times> cfgval) list"

text \<open>
  The exception classes that occur: the module's own family (lines 23-55), the pymysql
  error classes the handlers name, and the built-in ones (\<open>queue.Empty\<close>, ValueError,
  IOError, JSONDecodeError, AttributeError, OverflowError); \<open>OtherException\<close> is any
  other subclass
  of Exception. The string is what \<open>str(e)\<close> gives.
\<close>

datatype exn =
    ConnectionError string
  | QueryError string
  | UpdateError string
  | PoolExhaustedError string
  | OperationalError string
  | ProgrammingError string
  | InternalError string
  | IntegrityError string
  | Empty
  | ValueError string
  | IOError string
  | JSONDecodeError string
  | AttributeError string
  | OverflowError string
  | OtherException string

fun str_exn :: "exn \<Rightarrow> string" where
  "str_exn (ConnectionError m) = m"
| "str_exn (QueryError m) = m"
| "str_exn (UpdateError m) = m"
| "str_exn (PoolExhaustedError m) = m"
| "str_exn (OperationalError m) = m"
| "str_exn (ProgrammingError m) = m"
| "str_exn (InternalError m) = m"
| "str_exn (IntegrityError m) = m"
| "str_exn Empty = []"
| "str_exn (ValueError m) = m"
| "str_exn (IOError m) = m"
| "str_exn (JSONDecodeError m) = m"
| "str_exn (AttributeError m) = m"
| "str_exn (OverflowError m) = m"
| "str_exn (OtherException m) = m"

text \<open>Python's \<open>str\<close> of an integer, as the f-strings use it: decimal digits, a sign.\<close>

definition digit_char :: "nat \<Rightarrow> char" where
  "digit_char d = ''0123456789'' ! (d mod 10)"

function str_nat :: "nat \<Rightarrow> string" where
  "str_nat n = (if n < 10 then [digit_char n] else str_nat (n div 10) @ [digit_char n])"
  by pat_completeness auto
termination
  by (relation "measure id") auto

declare str_nat.simps [simp del]

definition str_int :: "int \<Rightarrow> string" where
  "str_int i = (if i < 0 then CHR ''-'' # str_nat (nat (- i)) else str_nat (nat i))"

subsection \<open>The backend and the trace of what is done to it\<close>

text \<open>
  Everything the pool does to the outside is appended to a trace: calls of the pymysql
  client, entering and leaving \<open>with self.lock\<close>, and every write of the counter
  \<open>current_connections\<close> (with the value written). The backend is a record of oracles
  saying how the outside answers; each is indexed by the length of the trace at the
  moment of the call, so any behaviour over time is some backend.
  \<open>arrive_at\<close> is the session another caller puts on the idle queue while a blocking
  \<open>get\<close> waits, \<open>None\<close> when nothing arrives within the timeout. \<open>timeout_max\<close> is
  the platform's \<open>threading.TIMEOUT_MAX\<close>, the longest wait a lock accepts.
\<close>

datatype action =
    Connect
  | Ping session bool
  | Close session
  | Execute session string params
  | Fetchall session
  | Commit session
  | Rollback session
  | LockAcquire
  | LockRelease
  | Counter int

record backend =
  connect_at :: "nat \<Rightarrow> exn + session"
  ping_at :: "nat \<Rightarrow> session \<Rightarrow> exn option"
  close_at :: "nat \<Rightarrow> session \<Rightarrow> exn option"
  execute_at :: "nat \<Rightarrow> session \<Rightarrow> string \<Rightarrow> params \<Rightarrow> exn + int"
  fetchall_at :: "nat \<Rightarrow> session \<Rightarrow> exn + row list"
  commit_at :: "nat \<Rightarrow> session \<Rightarrow> exn option"
  rollback_at :: "nat \<Rightarrow> session \<Rightarrow> exn option"
  arrive_at :: "nat \<Rightarrow> session option"
  timeout_max :: int

text \<open>
  How the attribute \<open>self.connection\<close> of a pool instance resolves. The constructor of
  the pool never assigns it, so the lookup finds the class attribute: the method
  \<open>connection\<close> of lines 346-358 (\<open>Method\<close>, truthy, without the attributes of a
  session). \<open>connect\<close> assigns a session, \<open>close\<close> assigns None.
\<close>

datatype attr = Method | PyNone | Conn session

record pool =
  min_connections :: int
  max_connections :: int
  current_connections :: int
  connection_timeout :: int
  config :: config
  connection_queue :: "session list"
  connection :: attr

text \<open>
  A call returns, raises, or blocks: \<open>Queue.put\<close> on a full queue waits, with no
  timeout, for a slot that only another caller can free. Calls that cannot block give
  \<open>exn + 'a\<close>, \<open>Inl\<close> the exception raised.
\<close>

datatype 'a outcome = Returns 'a | Raises exn | Blocks

section \<open>Pool core\<close>

subsection \<open>Calls of the client library\<close>

definition ping :: "backend \<Rightarrow> action list \<Rightarrow> session \<Rightarrow> bool \<Rightarrow> action list \<times> (exn + unit)" where
  "ping b t s reconnect =
     (t @ [Ping s reconnect],
      case ping_at b (length t) s of None \<Rightarrow> Inr () | Some e \<Rightarrow> Inl e)"

definition close :: "backend \<Rightarrow> action list \<Rightarrow> session \<Rightarrow> action list \<times> (exn + unit)" where
  "close b t s =
     (t @ [Close s],
      case close_at b (length t) s of None \<Rightarrow> Inr () | Some e \<Rightarrow> Inl e)"

text \<open>\<open>try: connection.close() except: pass\<close> (lines 256-259, 285-288, 332-335).\<close>

definition close_quietly :: "backend \<Rightarrow> action list \<Rightarrow> session \<Rightarrow> action list" where
  "close_quietly b t s = fst (close b t s)"

subsection \<open>\<open>_create_connection\<close> (lines 204-237)\<close>

fun create_failed :: "exn \<Rightarrow> string" where
  "create_failed (OperationalError m) = ''create connection failed - operational error: '' @ m"
| "create_failed (ProgrammingError m) = ''create connection failed - configuration error: '' @ m"
| "create_failed e = ''create connection failed: '' @ str_exn e"

definition create_connection :: "backend \<Rightarrow> action list \<Rightarrow> action list \<times> (exn + session)" where
  "create_connection b t =
     (t @ [Connect],
      case connect_at b (length t) of
        Inr s \<Rightarrow> Inr s
      | Inl e \<Rightarrow> Inl (ConnectionError (create_failed e)))"

subsection \<open>\<open>_is_connection_valid\<close> (lines 299-314)\<close>

definition is_connection_valid :: "backend \<Rightarrow> action list \<Rightarrow> session \<Rightarrow> action list \<times> bool" where
  "is_connection_valid b t s =
     (case ping b t s False of
        (t1, Inr _) \<Rightarrow> (t1, True)
      | (t1, Inl e) \<Rightarrow> (t1, False))"

subsection \<open>The idle queue, \<open>Queue(maxsize=max_connections)\<close>\<close>

text \<open>
  A Python queue with \<open>maxsize <= 0\<close> is unbounded. \<open>get(block=True, timeout=t)\<close> raises
  ValueError for a negative \<open>t\<close>, returns the head when there is one, and otherwise
  waits up to \<open>t\<close> seconds for an arrival before raising \<open>Empty\<close>; a wait longer
  than \<open>threading.TIMEOUT_MAX\<close> is refused with OverflowError at once.
\<close>

definition queue_full :: "pool \<Rightarrow> bool" where
  "queue_full p \<longleftrightarrow>
     0 < max_connections p \<and> max_connections p \<le> int (length (connection_queue p))"

definition queue_get_timeout :: "backend \<Rightarrow> action list \<Rightarrow> pool \<Rightarrow> exn + (session \<times> pool)" where
  "queue_get_timeout b t p =
     (if connection_timeout p < 0 then Inl (ValueError ''timeout must be a non-negative number'')
      else case connection_queue p of
        s # rest \<Rightarrow> Inr (s, p\<lparr>connection_queue := rest\<rparr>)
      | [] \<Rightarrow>
          (if connection_timeout p = 0 then Inl Empty
           else if timeout_max b < connection_timeout p
             then Inl (OverflowError ''timeout value is too large'')
           else case arrive_at b (length t) of
             Some s \<Rightarrow> Inr (s, p)
           | None \<Rightarrow> Inl Empty))"

subsection \<open>\<open>_initialize_pool\<close> (lines 183-202)\<close>

fun initialize_loop :: "backend \<Rightarrow> nat \<Rightarrow> action list \<Rightarrow> pool \<Rightarrow> action list \<times> pool \<times> unit outcome" where
  "initialize_loop b 0 t p = (t, p, Returns ())"
| "initialize_loop b (Suc n) t p =
     (case create_connection b t of
        (t1, Inl e) \<Rightarrow> initialize_loop b n t1 p
      | (t1, Inr s) \<Rightarrow>
          (if queue_full p then (t1, p, Blocks)
           else initialize_loop b n
                  (t1 @ [Counter (current_connections p + 1)])
                  (p\<lparr>connection_queue := connection_queue p @ [s],
                     current_connections := current_connections p + 1\<rparr>)))"

definition initialize_pool :: "backend \<Rightarrow> action list \<Rightarrow> pool \<Rightarrow> action list \<times> pool \<times> unit outcome" where
  "initialize_pool b t p = initialize_loop b (nat (min_connections p)) t p"

subsection \<open>The constructor (lines 119-169)\<close>

text \<open>
  \<open>kw\<close> is the dictionary built from the six keyword arguments host, user, password,
  database, port and charset; \<open>default_kw\<close> holds their defaults. A \<open>config\<close> argument
  that is None or empty leaves it as it is.
\<close>

definition default_kw :: config where
  "default_kw =
     [''host'' \<mapsto> Str ''localhost'', ''user'' \<mapsto> Str ''root'', ''password'' \<mapsto> Str [],
      ''database'' \<mapsto> Str [], ''port'' \<mapsto> Num 3306, ''charset'' \<mapsto> Str ''utf8mb4'']"

definition MySQLConnectionPool ::
  "backend \<Rightarrow> action list \<Rightarrow> int \<Rightarrow> int \<Rightarrow> config \<Rightarrow> config option \<Rightarrow> int \<Rightarrow>
     action list \<times> pool \<times> unit outcome" where
  "MySQLConnectionPool b t min_c max_c kw cfg timeout =
     initialize_pool b t
       \<lparr>min_connections = min_c, max_connections = max_c, current_connections = 0,
        connection_timeout = timeout,
        config = (case cfg of None \<Rightarrow> kw | Some c \<Rightarrow> kw ++ c),
        connection_queue = [], connection = Method\<rparr>"

subsection \<open>\<open>get_connection\<close> (lines 239-297)\<close>

text \<open>Lines 254-260 and again 283-289: probe the session, replace it when it is dead.\<close>

definition validate_or_recreate :: "backend \<Rightarrow> action list \<Rightarrow> session \<Rightarrow> action list \<times> (exn + session)" where
  "validate_or_recreate b t s =
     (case is_connection_valid b t s of
        (t1, True) \<Rightarrow> (t1, Inr s)
      | (t1, False) \<Rightarrow> create_connection b (close_quietly b t1 s))"

definition exhausted_message :: "pool \<Rightarrow> string" where
  "exhausted_message p =
     ''pool exhausted, cannot get a connection, timeout: '' @ str_int (connection_timeout p) @ ''s''"

text \<open>Lines 279-294: the blocking wait; its handler catches every exception.\<close>

definition wait_for_release :: "backend \<Rightarrow> action list \<Rightarrow> pool \<Rightarrow> action list \<times> pool \<times> (exn + session)" where
  "wait_for_release b t p =
     (case queue_get_timeout b t p of
        Inl e \<Rightarrow> (t, p, Inl (PoolExhaustedError (exhausted_message p)))
      | Inr (s, p1) \<Rightarrow>
          (case validate_or_recreate b t s of
             (t1, Inr c) \<Rightarrow> (t1, p1, Inr c)
           | (t1, Inl e) \<Rightarrow> (t1, p1, Inl (PoolExhaustedError (exhausted_message p)))))"

text \<open>Lines 263-294: the handler of the fast path, the locked section and then the wait.\<close>

definition grow_or_wait :: "backend \<Rightarrow> action list \<Rightarrow> pool \<Rightarrow> action list \<times> pool \<times> (exn + session)" where
  "grow_or_wait b t p =
     (if current_connections p < max_connections p then
        (case create_connection b (t @ [LockAcquire]) of
           (t1, Inr c) \<Rightarrow>
             (t1 @ [Counter (current_connections p + 1), LockRelease],
              p\<lparr>current_connections := current_connections p + 1\<rparr>, Inr c)
         | (t1, Inl e) \<Rightarrow>
             (t1 @ [LockRelease], p,
              Inl (ConnectionError (''create new connection failed: '' @ str_exn e))))
      else wait_for_release b (t @ [LockAcquire, LockRelease]) p)"

text \<open>
  Lines 249-262: the non-blocking pop. \<open>queue.get(block=False)\<close> on an empty queue
  raises \<open>Empty\<close>, which the handler of line 263 catches like any other exception.
  The outer handler of lines 295-297 logs and re-raises.
\<close>

definition get_connection :: "backend \<Rightarrow> action list \<Rightarrow> pool \<Rightarrow> action list \<times> pool \<times> (exn + session)" where
  "get_connection b t p =
     (case connection_queue p of
        [] \<Rightarrow> grow_or_wait b t p
      | s # rest \<Rightarrow>
          (case validate_or_recreate b t s of
             (t1, Inr c) \<Rightarrow> (t1, p\<lparr>connection_queue := rest\<rparr>, Inr c)
           | (t1, Inl e) \<Rightarrow> grow_or_wait b t1 (p\<lparr>connection_queue := rest\<rparr>)))"

subsection \<open>\<open>release_connection\<close> (lines 316-344)\<close>

text \<open>The body of the \<open>try\<close>, lines 324-335.\<close>

definition release_try :: "backend \<Rightarrow> action list \<Rightarrow> pool \<Rightarrow> session \<Rightarrow> action list \<times> pool \<times> unit outcome" where
  "release_try b t p s =
     (case is_connection_valid b t s of
        (t1, True) \<Rightarrow>
          (if queue_full p then (t1, p, Blocks)
           else (t1, p\<lparr>connection_queue := connection_queue p @ [s]\<rparr>, Returns ()))
      | (t1, False) \<Rightarrow>
          (close_quietly b (t1 @ [LockAcquire, Counter (current_connections p - 1), LockRelease]) s,
           p\<lparr>current_connections := current_connections p - 1\<rparr>, Returns ()))"

text \<open>With the handler of lines 336-344, whose own \<open>try\<close> has a bare \<open>except: pass\<close>.\<close>

definition release_connection :: "backend \<Rightarrow> action list \<Rightarrow> pool \<Rightarrow> session \<Rightarrow> action list \<times> pool \<times> unit outcome" where
  "release_connection b t p s =
     (case release_try b t p s of
        (t1, p1, Raises e) \<Rightarrow>
          (case close b t1 s of
             (t2, Inr _) \<Rightarrow>
               (t2 @ [LockAcquire, Counter (current_connections p1 - 1), LockRelease],
                p1\<lparr>current_connections := current_connections p1 - 1\<rparr>, Returns ())
           | (t2, Inl e2) \<Rightarrow> (t2, p1, Returns ()))
      | r \<Rightarrow> r)"

subsection \<open>The scoped helper \<open>connection\<close> (lines 346-358)\<close>

text \<open>
  \<open>conn = self.get_connection(); try: yield conn finally: self.release_connection(conn)\<close>.
  The unit of work is a function of the trace and the session; it does not touch the pool.
\<close>

definition with_connection ::
  "(action list \<Rightarrow> session \<Rightarrow> action list \<times> (exn + 'a)) \<Rightarrow> backend \<Rightarrow> action list \<Rightarrow> pool \<Rightarrow>
     action list \<times> pool \<times> 'a outcome" where
  "with_connection body b t p =
     (case get_connection b t p of
        (t1, p1, Inl e) \<Rightarrow> (t1, p1, Raises e)
      | (t1, p1, Inr conn) \<Rightarrow>
          (case body t1 conn of
             (t2, r) \<Rightarrow>
               (case release_connection b t2 p1 conn of
                  (t3, p3, Returns _) \<Rightarrow>
                    (t3, p3, (case r of Inl e \<Rightarrow> Raises e | Inr v \<Rightarrow> Returns v))
                | (t3, p3, Raises e) \<Rightarrow> (t3, p3, Raises e)
                | (t3, p3, Blocks) \<Rightarrow> (t3, p3, Blocks))))"

section \<open>Statement executor\<close>

subsection \<open>Calls on a session\<close>

definition execute :: "backend \<Rightarrow> action list \<Rightarrow> session \<Rightarrow> string \<Rightarrow> params \<Rightarrow> action list \<times> (exn + int)" where
  "execute b t s q ps = (t @ [Execute s q ps], execute_at b (length t) s q ps)"

definition fetchall :: "backend \<Rightarrow> action list \<Rightarrow> session \<Rightarrow> action list \<times> (exn + row list)" where
  "fetchall b t s = (t @ [Fetchall s], fetchall_at b (length t) s)"

definition commit :: "backend \<Rightarrow> action list \<Rightarrow> session \<Rightarrow> action list \<times> (exn + unit)" where
  "commit b t s =
     (t @ [Commit s], case commit_at b (length t) s of None \<Rightarrow> Inr () | Some e \<Rightarrow> Inl e)"

definition rollback :: "backend \<Rightarrow> action list \<Rightarrow> session \<Rightarrow> action list \<times> (exn + unit)" where
  "rollback b t s =
     (t @ [Rollback s], case rollback_at b (length t) s of None \<Rightarrow> Inr () | Some e \<Rightarrow> Inl e)"

text \<open>\<open>cursor.execute(query, params or ()); result = cursor.fetchall()\<close> (lines 380-381, 693-694).\<close>

definition fetch_rows :: "backend \<Rightarrow> action list \<Rightarrow> session \<Rightarrow> string \<Rightarrow> params \<Rightarrow> action list \<times> (exn + row list)" where
  "fetch_rows b t s q ps =
     (case execute b t s q ps of
        (t1, Inl e) \<Rightarrow> (t1, Inl e)
      | (t1, Inr n) \<Rightarrow> fetchall b t1 s)"

text \<open>\<open>affected_rows = cursor.execute(query, params or ()); commit()\<close> (lines 416-417, 734-735).\<close>

definition execute_commit :: "backend \<Rightarrow> action list \<Rightarrow> session \<Rightarrow> string \<Rightarrow> params \<Rightarrow> action list \<times> (exn + int)" where
  "execute_commit b t s q ps =
     (case execute b t s q ps of
        (t1, Inl e) \<Rightarrow> (t1, Inl e)
      | (t1, Inr n) \<Rightarrow>
          (case commit b t1 s of
             (t2, Inl e) \<Rightarrow> (t2, Inl e)
           | (t2, Inr _) \<Rightarrow> (t2, Inr n)))"

subsection \<open>The first definitions of \<open>execute_query\<close> and \<open>execute_update\<close> (lines 360-435)\<close>

text \<open>
  The class body defines \<open>execute_query\<close>, \<open>execute_update\<close> and \<open>from_config_file\<close>
  twice. The first definitions are embedded under the suffixes \<open>_pooled\<close> and
  \<open>_validating\<close>; the later ones, which the class ends up with, keep the names.
\<close>

fun query_failed_pooled :: "exn \<Rightarrow> string" where
  "query_failed_pooled (ProgrammingError m) = ''query syntax error: '' @ m"
| "query_failed_pooled e = ''query failed: '' @ str_exn e"

definition execute_query_pooled ::
  "backend \<Rightarrow> action list \<Rightarrow> pool \<Rightarrow> string \<Rightarrow> params \<Rightarrow> action list \<times> pool \<times> row list outcome" where
  "execute_query_pooled b t p q ps =
     (case with_connection (\<lambda>t1 conn. fetch_rows b t1 conn q ps) b t p of
        (t1, p1, Raises e) \<Rightarrow> (t1, p1, Raises (QueryError (query_failed_pooled e)))
      | r \<Rightarrow> r)"

fun update_failed_pooled :: "exn \<Rightarrow> string" where
  "update_failed_pooled (IntegrityError m) = ''data integrity error: '' @ m"
| "update_failed_pooled e = ''update failed: '' @ str_exn e"

text \<open>Lines 415-429: the inner \<open>try\<close>; \<open>conn.rollback()\<close> stands unguarded in both handlers.\<close>

definition update_on :: "backend \<Rightarrow> action list \<Rightarrow> session \<Rightarrow> string \<Rightarrow> params \<Rightarrow> action list \<times> (exn + int)" where
  "update_on b t conn q ps =
     (case execute_commit b t conn q ps of
        (t1, Inr n) \<Rightarrow> (t1, Inr n)
      | (t1, Inl e) \<Rightarrow>
          (case rollback b t1 conn of
             (t2, Inr _) \<Rightarrow> (t2, Inl (UpdateError (update_failed_pooled e)))
           | (t2, Inl e2) \<Rightarrow> (t2, Inl e2)))"

text \<open>Lines 430-435: \<open>except UpdateError: raise\<close>, then \<open>except Exception\<close>.\<close>

fun update_wrap :: "exn \<Rightarrow> exn" where
  "update_wrap (UpdateError m) = UpdateError m"
| "update_wrap e = UpdateError (''update operation exception: '' @ str_exn e)"

definition execute_update_pooled ::
  "backend \<Rightarrow> action list \<Rightarrow> pool \<Rightarrow> string \<Rightarrow> params \<Rightarrow> action list \<times> pool \<times> int outcome" where
  "execute_update_pooled b t p q ps =
     (case with_connection (\<lambda>t1 conn. update_on b t1 conn q ps) b t p of
        (t1, p1, Raises e) \<Rightarrow> (t1, p1, Raises (update_wrap e))
      | r \<Rightarrow> r)"

subsection \<open>\<open>connect\<close> (lines 563-605) and the attribute \<open>self.connection\<close>\<close>

fun connect_failed :: "exn \<Rightarrow> string" where
  "connect_failed (OperationalError m) = ''database operation error: '' @ m"
| "connect_failed (InternalError m) = ''database internal error: '' @ m"
| "connect_failed (ProgrammingError m) = ''database programming error: '' @ m"
| "connect_failed e = ''database connection failed: '' @ str_exn e"

definition connect :: "backend \<Rightarrow> action list \<Rightarrow> pool \<Rightarrow> action list \<times> pool \<times> (exn + session)" where
  "connect b t p =
     (case connect_at b (length t) of
        Inr s \<Rightarrow> (t @ [Connect], p\<lparr>connection := Conn s\<rparr>, Inr s)
      | Inl e \<Rightarrow> (t @ [Connect], p, Inl (ConnectionError (connect_failed e))))"

fun truthy :: "attr \<Rightarrow> bool" where
  "truthy PyNone = False"
| "truthy Method = True"
| "truthy (Conn s) = True"

text \<open>\<open>if not self.connection: self.connect()\<close> (lines 685-686, 726-727).\<close>

definition ensure_connected :: "backend \<Rightarrow> action list \<Rightarrow> pool \<Rightarrow> action list \<times> pool \<times> (exn + unit)" where
  "ensure_connected b t p =
     (if truthy (connection p) then (t, p, Inr ())
      else case connect b t p of
        (t1, p1, Inl e) \<Rightarrow> (t1, p1, Inl e)
      | (t1, p1, Inr _) \<Rightarrow> (t1, p1, Inr ()))"

text \<open>
  Reading an attribute of a session off something that is not one (the quotation marks
  of Python's message are left out).
\<close>

fun attribute_error :: "attr \<Rightarrow> string \<Rightarrow> exn" where
  "attribute_error PyNone name = AttributeError (''NoneType object has no attribute '' @ name)"
| "attribute_error a name = AttributeError (''function object has no attribute '' @ name)"

subsection \<open>The later definitions of \<open>execute_query\<close> and \<open>execute_update\<close> (lines 671-754)\<close>

fun query_failed :: "exn \<Rightarrow> string" where
  "query_failed (ProgrammingError m) = ''query syntax error: '' @ m"
| "query_failed (InternalError m) = ''query internal error: '' @ m"
| "query_failed e = ''query failed: '' @ str_exn e"

definition execute_query ::
  "backend \<Rightarrow> action list \<Rightarrow> pool \<Rightarrow> string \<Rightarrow> params \<Rightarrow> action list \<times> pool \<times> (exn + row list)" where
  "execute_query b t p q ps =
     (case ensure_connected b t p of
        (t1, p1, Inl e) \<Rightarrow> (t1, p1, Inl e)
      | (t1, p1, Inr _) \<Rightarrow>
          (case (case connection p1 of
                   Conn s \<Rightarrow> fetch_rows b t1 s q ps
                 | a \<Rightarrow> (t1, Inl (attribute_error a ''cursor''))) of
             (t2, Inr rows) \<Rightarrow> (t2, p1, Inr rows)
           | (t2, Inl e) \<Rightarrow> (t2, p1, Inl (QueryError (query_failed e)))))"

fun update_failed :: "exn \<Rightarrow> string" where
  "update_failed (IntegrityError m) = ''data integrity error: '' @ m"
| "update_failed (ProgrammingError m) = ''update syntax error: '' @ m"
| "update_failed e = ''update failed: '' @ str_exn e"

text \<open>
  Each of the three handlers of lines 740-754 starts with \<open>self.connection.rollback()\<close>;
  what that raises leaves the handler in place of the UpdateError.
\<close>

definition execute_update ::
  "backend \<Rightarrow> action list \<Rightarrow> pool \<Rightarrow> string \<Rightarrow> params \<Rightarrow> action list \<times> pool \<times> (exn + int)" where
  "execute_update b t p q ps =
     (case ensure_connected b t p of
        (t1, p1, Inl e) \<Rightarrow> (t1, p1, Inl e)
      | (t1, p1, Inr _) \<Rightarrow>
          (case connection p1 of
             Conn s \<Rightarrow>
               (case execute_commit b t1 s q ps of
                  (t2, Inr n) \<Rightarrow> (t2, p1, Inr n)
                | (t2, Inl e) \<Rightarrow>
                    (case rollback b t2 s of
                       (t3, Inr _) \<Rightarrow> (t3, p1, Inl (UpdateError (update_failed e)))
                     | (t3, Inl e2) \<Rightarrow> (t3, p1, Inl e2)))
           | a \<Rightarrow> (t1, p1, Inl (attribute_error a ''rollback''))))"

section \<open>Configuration file\<close>

text \<open>
  What the path holds: nothing, a file that cannot be read, a file that is not JSON
  (with the decoder's message), or a JSON object.
\<close>

datatype config_file = NoFile | Unreadable string | NotJson string | Json config

text \<open>\<open>cls(min_connections=..., max_connections=..., config=config)\<close>: every other argument at its default.\<close>

definition construct :: "backend \<Rightarrow> action list \<Rightarrow> int \<Rightarrow> int \<Rightarrow> config \<Rightarrow> action list \<times> pool outcome" where
  "construct b t min_c max_c c =
     (case MySQLConnectionPool b t min_c max_c default_kw (Some c) 30 of
        (t1, p, Returns _) \<Rightarrow> (t1, Returns p)
      | (t1, p, Raises e) \<Rightarrow> (t1, Raises e)
      | (t1, p, Blocks) \<Rightarrow> (t1, Blocks))"

definition required_fields :: "string list" where
  "required_fields = [''host'', ''user'', ''password'', ''database'']"

text \<open>Lines 503-507: IOError and ValueError pass, anything else is wrapped.\<close>

fun load_wrap :: "exn \<Rightarrow> exn" where
  "load_wrap (IOError m) = IOError m"
| "load_wrap (ValueError m) = ValueError m"
| "load_wrap (JSONDecodeError m) = JSONDecodeError m"
| "load_wrap e = OtherException (''load from config file failed: '' @ str_exn e)"

text \<open>The first definition, lines 461-507.\<close>

definition from_config_file_validating ::
  "backend \<Rightarrow> action list \<Rightarrow> string \<Rightarrow> config_file \<Rightarrow> int \<Rightarrow> int \<Rightarrow> action list \<times> pool outcome" where
  "from_config_file_validating b t path f min_c max_c =
     (case f of
        NoFile \<Rightarrow> (t, Raises (IOError (''config file does not exist: '' @ path)))
      | Unreadable m \<Rightarrow> (t, Raises (IOError m))
      | NotJson m \<Rightarrow> (t, Raises (ValueError (''config file format error: '' @ m)))
      | Json c \<Rightarrow>
          (case filter (\<lambda>k. c k = None) required_fields of
             k # _ \<Rightarrow> (t, Raises (ValueError (''config file lacks required item: '' @ k)))
           | [] \<Rightarrow>
               (case construct b t min_c max_c c of
                  (t1, Raises e) \<Rightarrow> (t1, Raises (load_wrap e))
                | r \<Rightarrow> r)))"

text \<open>The later definition, lines 607-623: open, \<open>json.load\<close>, \<open>cls(config=config)\<close>.\<close>

definition from_config_file :: "backend \<Rightarrow> action list \<Rightarrow> string \<Rightarrow> config_file \<Rightarrow> action list \<times> pool outcome" where
  "from_config_file b t path f =
     (case f of
        NoFile \<Rightarrow>
          (t, Raises (OtherException (''load from config file failed: ''
                 @ ''[Errno 2] No such file or directory: '' @ path)))
      | Unreadable m \<Rightarrow> (t, Raises (OtherException (''load from config file failed: '' @ m)))
      | NotJson m \<Rightarrow> (t, Raises (OtherException (''load from config file failed: '' @ m)))
      | Json c \<Rightarrow>
          (case construct b t 5 20 c of
             (t1, Raises e) \<Rightarrow>
               (t1, Raises (OtherException (''load from config file failed: '' @ str_exn e)))
           | r \<Rightarrow> r))"

section \<open>Sequences of calls\<close>

text \<open>
  A caller acquires or releases; \<open>run\<close> lists the pool as it stands before the first
  call and after each one. A release that blocks ends the sequence.
\<close>

datatype call = Get | Release session

fun run :: "backend \<Rightarrow> action list \<Rightarrow> pool \<Rightarrow> call list \<Rightarrow> pool list" where
  "run b t p [] = [p]"
| "run b t p (Get # cs) =
     p # (case get_connection b t p of (t1, p1, r) \<Rightarrow> run b t1 p1 cs)"
| "run b t p (Release s # cs) =
     p # (case release_connection b t p s of
            (t1, p1, Blocks) \<Rightarrow> [p1]
          | (t1, p1, r) \<Rightarrow> run b t1 p1 cs)"

text \<open>
  The sessions that are open after a trace: opened by a successful \<open>Connect\<close>, not
  closed since.
\<close>

fun live_from :: "backend \<Rightarrow> nat \<Rightarrow> action list \<Rightarrow> session list \<Rightarrow> session list" where
  "live_from b i [] acc = acc"
| "live_from b i (Connect # as) acc =
     live_from b (Suc i) as (case connect_at b i of Inr s \<Rightarrow> acc @ [s] | Inl e \<Rightarrow> acc)"
| "live_from b i (Close s # as) acc = live_from b (Suc i) as (removeAll s acc)"
| "live_from b i (a # as) acc = live_from b (Suc i) as acc"

definition live_sessions :: "backend \<Rightarrow> action list \<Rightarrow> session list" where
  "live_sessions b t = live_from b 0 t []"

section \<open>Concrete backends and pools\<close>

text \<open>
  \<open>backend0\<close> answers every call with success and opens the session numbered by the
  position of the \<open>Connect\<close> in the trace. In \<open>dead_backend\<close> every ping fails; in
  \<open>outage_backend\<close> every connect from position 4 of the trace on fails as well (the
  server goes away once two sessions are open); in \<open>stubborn_backend\<close> pings and
  closes fail. \<open>arrival_backend\<close> is \<open>dead_backend\<close> with session 7 arriving on the
  idle queue during any wait. In \<open>flaky_backend\<close> pings fail and the connect at
  position 4 of the trace fails. In \<open>integrity_backend\<close> every statement violates a
  constraint; in \<open>failing_rollback_backend\<close> the rollback fails too.
  \<open>config_without_host\<close> is a JSON object with three of the four required keys.
  \<open>pool_state\<close> is a pool with the given maximum, counter and idle queue, a timeout of
  30 seconds and the default configuration.
\<close>

definition backend0 :: backend where
  "backend0 =
     \<lparr>connect_at = (\<lambda>n. Inr n), ping_at = (\<lambda>n s. None), close_at = (\<lambda>n s. None),
      execute_at = (\<lambda>n s q ps. Inr 1), fetchall_at = (\<lambda>n s. Inr []),
      commit_at = (\<lambda>n s. None), rollback_at = (\<lambda>n s. None), arrive_at = (\<lambda>n. None),
      timeout_max = 9223372036\<rparr>"

definition dead_backend :: backend where
  "dead_backend = backend0\<lparr>ping_at := (\<lambda>n s. Some (OperationalError ''server has gone away''))\<rparr>"

definition outage_backend :: backend where
  "outage_backend =
     dead_backend\<lparr>connect_at :=
       (\<lambda>n. if n < 4 then Inr n else Inl (OperationalError ''cannot connect''))\<rparr>"

definition stubborn_backend :: backend where
  "stubborn_backend = dead_backend\<lparr>close_at := (\<lambda>n s. Some (OperationalError ''close failed''))\<rparr>"

definition arrival_backend :: backend where
  "arrival_backend = dead_backend\<lparr>arrive_at := (\<lambda>n. Some 7)\<rparr>"

definition flaky_backend :: backend where
  "flaky_backend =
     dead_backend\<lparr>connect_at :=
       (\<lambda>n. if n = 4 then Inl (OperationalError ''cannot connect'') else Inr n)\<rparr>"

definition integrity_backend :: backend where
  "integrity_backend = backend0\<lparr>execute_at := (\<lambda>n s q ps. Inl (IntegrityError ''duplicate entry''))\<rparr>"

definition failing_rollback_backend :: backend where
  "failing_rollback_backend =
     integrity_backend\<lparr>rollback_at := (\<lambda>n s. Some (OperationalError ''server has gone away''))\<rparr>"

definition config_without_host :: config where
  "config_without_host =
     [''user'' \<mapsto> Str ''app'', ''password'' \<mapsto> Str ''secret'', ''database'' \<mapsto> Str ''shop'']"

definition pool_state :: "int \<Rightarrow> int \<Rightarrow> session list \<Rightarrow> pool" where
  "pool_state max_c cur q =
     \<lparr>min_connections = 0, max_connections = max_c, current_connections = cur,
      connection_timeout = 30, config = default_kw, connection_queue = q, connection = Method\<rparr>"

section \<open>Auxiliary facts\<close>

lemma str_int_30: "str_int 30 = ''30''"
  by code_simp

lemma live_from_append:
  "live_from b i (xs @ ys) acc = live_from b (i + length xs) ys (live_from b i xs acc)"
  by (induction b i xs acc rule: live_from.induct) simp_all

lemma live_sessions_append:
  "live_sessions b (t @ xs) = live_from b (length t) xs (live_sessions b t)"
  by (simp add: live_sessions_def live_from_append)

section \<open>Liveness probe\<close>

text \<open>
  C9. The liveness probe is total: for every session and every answer of the backend it
  returns a boolean and raises nothing; it returns true exactly when the ping succeeds,
  so every failure of the ping becomes false; the only thing it does to the outside is
  one ping with reconnect disabled, which opens and closes no session.
\<close>

theorem is_connection_valid_total:
  "is_connection_valid b t s = (t @ [Ping s False], ping_at b (length t) s = None) \<and>
   live_sessions b (fst (is_connection_valid b t s)) = live_sessions b t"
proof -
  have probe: "is_connection_valid b t s = (t @ [Ping s False], ping_at b (length t) s = None)"
  proof (cases "ping_at b (length t) s")
    case None
    then show ?thesis by (simp add: is_connection_valid_def ping_def)
  next
    case (Some e)
    then show ?thesis by (simp add: is_connection_valid_def ping_def)
  qed
  have "live_sessions b (t @ [Ping s False]) = live_sessions b t"
    by (simp add: live_sessions_append)
  with probe show ?thesis by simp
qed

section \<open>Release\<close>

text \<open>
  C6, as amended. For every session, pool and backend, \<open>release_connection\<close> raises
  nothing. When the probe succeeds and the idle queue has room, it appends the session to
  the queue and leaves the counter as it is; when the probe succeeds and the queue is
  full, the put blocks, and neither the queue nor the counter has changed. When the probe
  fails it decrements the counter between entering and leaving the lock and closes the
  session, whatever the close answers.
\<close>

theorem release_connection_absorbs:
  "(\<forall>e. snd (snd (release_connection b t p s)) \<noteq> Raises e) \<and>
   (ping_at b (length t) s = None \<and> \<not> queue_full p \<longrightarrow>
      release_connection b t p s =
        (t @ [Ping s False], p\<lparr>connection_queue := connection_queue p @ [s]\<rparr>, Returns ())) \<and>
   (ping_at b (length t) s = None \<and> queue_full p \<longrightarrow>
      release_connection b t p s = (t @ [Ping s False], p, Blocks)) \<and>
   (ping_at b (length t) s \<noteq> None \<longrightarrow>
      release_connection b t p s =
        (t @ [Ping s False, LockAcquire, Counter (current_connections p - 1), LockRelease, Close s],
         p\<lparr>current_connections := current_connections p - 1\<rparr>, Returns ()))"
  by (auto simp: release_connection_def release_try_def is_connection_valid_def ping_def
        close_quietly_def close_def split: option.splits)

theorem release_connection_absorbs_witness:
  "release_connection backend0 [] (pool_state 2 1 []) 7 = ([Ping 7 False], pool_state 2 1 [7], Returns ()) \<and>
   release_connection backend0 [] (pool_state 1 1 [7]) 7 = ([Ping 7 False], pool_state 1 1 [7], Blocks) \<and>
   release_connection stubborn_backend [] (pool_state 2 1 []) 7 =
     ([Ping 7 False, LockAcquire, Counter 0, LockRelease, Close 7], pool_state 2 0 [], Returns ())"
  using release_connection_absorbs [of backend0 "[]" "pool_state 2 1 []" 7]
    release_connection_absorbs [of backend0 "[]" "pool_state 1 1 [7]" 7]
    release_connection_absorbs [of stubborn_backend "[]" "pool_state 2 1 []" 7]
  by (simp add: backend0_def dead_backend_def stubborn_backend_def pool_state_def queue_full_def)

text \<open>
  C6 as stated fails. A pool of exactly one session is constructed, the session is
  acquired and released, and released once more: its probe succeeds, the queue of size
  one is full, and the call blocks in the put without pushing the session.
\<close>

theorem double_release_blocks:
  "MySQLConnectionPool backend0 [] 1 1 default_kw None 30 =
     ([Connect, Counter 1], (pool_state 1 1 [0])\<lparr>min_connections := 1\<rparr>, Returns ()) \<and>
   get_connection backend0 [Connect, Counter 1] ((pool_state 1 1 [0])\<lparr>min_connections := 1\<rparr>) =
     ([Connect, Counter 1, Ping 0 False], (pool_state 1 1 [])\<lparr>min_connections := 1\<rparr>, Inr 0) \<and>
   release_connection backend0 [Connect, Counter 1, Ping 0 False]
       ((pool_state 1 1 [])\<lparr>min_connections := 1\<rparr>) 0 =
     ([Connect, Counter 1, Ping 0 False, Ping 0 False],
      (pool_state 1 1 [0])\<lparr>min_connections := 1\<rparr>, Returns ()) \<and>
   release_connection backend0 [Connect, Counter 1, Ping 0 False, Ping 0 False]
       ((pool_state 1 1 [0])\<lparr>min_connections := 1\<rparr>) 0 =
     ([Connect, Counter 1, Ping 0 False, Ping 0 False, Ping 0 False],
      (pool_state 1 1 [0])\<lparr>min_connections := 1\<rparr>, Blocks)"
  by (simp add: MySQLConnectionPool_def initialize_pool_def create_connection_def
      get_connection_def validate_or_recreate_def is_connection_valid_def ping_def
      release_connection_def release_try_def queue_full_def backend0_def pool_state_def)

section \<open>Acquire\<close>

text \<open>
  C3. When the counter equals the maximum, the idle queue is empty (every session is
  checked out) and no session arrives while the call waits, \<open>get_connection\<close> returns
  with PoolExhaustedError; the message carries the configured timeout, and the pool is
  left as it was.
\<close>

theorem get_connection_exhausted:
  assumes "current_connections p = max_connections p"
    and "connection_queue p = []"
    and "\<forall>n. arrive_at b n = None"
  shows "get_connection b t p =
     (t @ [LockAcquire, LockRelease], p,
      Inl (PoolExhaustedError (''pool exhausted, cannot get a connection, timeout: ''
             @ str_int (connection_timeout p) @ ''s'')))"
  using assms
  by (simp add: get_connection_def grow_or_wait_def wait_for_release_def queue_get_timeout_def
        exhausted_message_def)

theorem get_connection_exhausted_witness:
  "get_connection backend0 [] (pool_state 1 1 []) =
     ([LockAcquire, LockRelease], pool_state 1 1 [],
      Inl (PoolExhaustedError ''pool exhausted, cannot get a connection, timeout: 30s''))"
  using get_connection_exhausted [of "pool_state 1 1 []" backend0 "[]"]
  by (simp add: pool_state_def backend0_def str_int_30)

section \<open>The counter and the maximum\<close>

lemma initialize_loop_bounds:
  "initialize_loop b n t p = (t1, p1, r) \<Longrightarrow>
     max_connections p1 = max_connections p \<and>
     current_connections p \<le> current_connections p1 \<and>
     current_connections p1 \<le> current_connections p + int n"
proof (induction n arbitrary: t p)
  case 0
  then show ?case by simp
next
  case (Suc n)
  show ?case
  proof (cases "connect_at b (length t)")
    case (Inl e)
    with Suc.prems have "initialize_loop b n (t @ [Connect]) p = (t1, p1, r)"
      by (simp add: create_connection_def)
    from Suc.IH [OF this] show ?thesis by simp
  next
    case (Inr s)
    show ?thesis
    proof (cases "queue_full p")
      case True
      with Inr Suc.prems show ?thesis by (simp add: create_connection_def)
    next
      case False
      with Inr Suc.prems have "initialize_loop b n
          (t @ [Connect] @ [Counter (current_connections p + 1)])
          (p\<lparr>connection_queue := connection_queue p @ [s],
             current_connections := current_connections p + 1\<rparr>) = (t1, p1, r)"
        by (simp add: create_connection_def)
      from Suc.IH [OF this] show ?thesis by simp
    qed
  qed
qed

lemma wait_for_release_counter:
  "wait_for_release b t p = (t1, p1, r) \<Longrightarrow>
     max_connections p1 = max_connections p \<and> current_connections p1 = current_connections p"
  by (auto simp: wait_for_release_def queue_get_timeout_def
        split: sum.splits prod.splits if_splits list.splits option.splits)

lemma grow_or_wait_counter:
  "grow_or_wait b t p = (t1, p1, r) \<Longrightarrow>
     max_connections p1 = max_connections p \<and>
     (current_connections p \<le> max_connections p \<longrightarrow> current_connections p1 \<le> max_connections p)"
  by (auto simp: grow_or_wait_def split: sum.splits prod.splits if_splits
        dest: wait_for_release_counter)

lemma get_connection_counter:
  "get_connection b t p = (t1, p1, r) \<Longrightarrow>
     max_connections p1 = max_connections p \<and>
     (current_connections p \<le> max_connections p \<longrightarrow> current_connections p1 \<le> max_connections p)"
  by (auto simp: get_connection_def split: list.splits sum.splits prod.splits
        dest: grow_or_wait_counter)

lemma release_connection_counter:
  "release_connection b t p s = (t1, p1, r) \<Longrightarrow>
     max_connections p1 = max_connections p \<and> current_connections p1 \<le> current_connections p"
  by (auto simp: release_connection_def release_try_def is_connection_valid_def ping_def
        close_def split: option.splits if_splits)

lemma run_head: "p \<in> set (run b t p cs)"
  by (induction b t p cs rule: run.induct) auto

lemma run_bounded:
  "current_connections p \<le> max_connections p \<Longrightarrow> q \<in> set (run b t p cs) \<Longrightarrow>
     current_connections q \<le> max_connections p"
proof (induction cs arbitrary: t p)
  case Nil
  then show ?case by simp
next
  case (Cons c cs)
  show ?case
  proof (cases c)
    case Get
    obtain t1 p1 r where g: "get_connection b t p = (t1, p1, r)"
      by (cases "get_connection b t p") auto
    from get_connection_counter [OF g] Cons.prems(1)
    have inv: "max_connections p1 = max_connections p" "current_connections p1 \<le> max_connections p1"
      by simp_all
    from Cons.prems(2) Get g have "q = p \<or> q \<in> set (run b t1 p1 cs)" by simp
    then show ?thesis using Cons.IH [OF inv(2)] inv(1) Cons.prems(1) by auto
  next
    case (Release s)
    obtain t1 p1 r where g: "release_connection b t p s = (t1, p1, r)"
      by (cases "release_connection b t p s") auto
    from release_connection_counter [OF g] Cons.prems(1)
    have inv: "max_connections p1 = max_connections p" "current_connections p1 \<le> max_connections p1"
      by simp_all
    from Cons.prems(2) Release g have "q = p \<or> q = p1 \<or> q \<in> set (run b t1 p1 cs)"
      by (cases r) auto
    moreover have "p1 \<in> set (run b t1 p1 cs)" by (rule run_head)
    ultimately show ?thesis using Cons.IH [OF inv(2)] inv(1) Cons.prems(1) by auto
  qed
qed

text \<open>
  C1, as amended. For a pool constructed with \<open>min_connections <= max_connections\<close> and
  \<open>0 <= max_connections\<close>, and every sequence of \<open>get_connection\<close> and
  \<open>release_connection\<close> calls (any sessions, any backend), the counter is at most
  \<open>max_connections\<close> after the construction and after every call. The values the
  counter takes inside the constructor are below its value at the end.
\<close>

theorem counter_never_exceeds_max:
  assumes "min_c \<le> max_c" and "0 \<le> max_c"
    and "MySQLConnectionPool b t min_c max_c kw cfg timeout = (t1, p1, r)"
  shows "\<forall>q \<in> set (run b t1 p1 cs). current_connections q \<le> max_c"
proof -
  define p0 where "p0 =
     \<lparr>min_connections = min_c, max_connections = max_c, current_connections = 0,
      connection_timeout = timeout, config = (case cfg of None \<Rightarrow> kw | Some c \<Rightarrow> kw ++ c),
      connection_queue = [], connection = Method\<rparr>"
  from assms(3) have "initialize_loop b (nat min_c) t p0 = (t1, p1, r)"
    by (simp add: MySQLConnectionPool_def initialize_pool_def p0_def)
  from initialize_loop_bounds [OF this]
  have "max_connections p1 = max_c \<and> current_connections p1 \<le> int (nat min_c)"
    by (simp add: p0_def)
  with assms(1,2) have "max_connections p1 = max_c" "current_connections p1 \<le> max_connections p1"
    by (auto split: if_splits)
  with run_bounded show ?thesis by metis
qed


lemma run_example:
  "map current_connections
     (run backend0 [Connect, Counter 1] ((pool_state 2 1 [0])\<lparr>min_connections := 1\<rparr>)
        [Get, Get, Get, Release 0]) = [1, 1, 2, 2, 2]"
  by (simp add: get_connection_def grow_or_wait_def wait_for_release_def queue_get_timeout_def
      validate_or_recreate_def is_connection_valid_def ping_def create_connection_def
      release_connection_def release_try_def queue_full_def
      backend0_def pool_state_def)

text \<open>A pool of one to two sessions: one reused, one grown, one refused, one released.\<close>

theorem counter_never_exceeds_max_witness:
  "(1::int) \<le> 2 \<and> (0::int) \<le> 2 \<and>
   MySQLConnectionPool backend0 [] 1 2 default_kw None 30 =
     ([Connect, Counter 1], (pool_state 2 1 [0])\<lparr>min_connections := 1\<rparr>, Returns ()) \<and>
   map current_connections
     (run backend0 [Connect, Counter 1] ((pool_state 2 1 [0])\<lparr>min_connections := 1\<rparr>)
        [Get, Get, Get, Release 0]) = [1, 1, 2, 2, 2] \<and>
   current_connections
     (last (run backend0 [Connect, Counter 1] ((pool_state 2 1 [0])\<lparr>min_connections := 1\<rparr>)
        [Get, Get, Get, Release 0])) \<le> 2"
proof -
  let ?p = "(pool_state 2 1 [0])\<lparr>min_connections := 1\<rparr>"
  let ?r = "run backend0 [Connect, Counter 1] ?p [Get, Get, Get, Release 0]"
  have c: "MySQLConnectionPool backend0 [] 1 2 default_kw None 30 =
     ([Connect, Counter 1], ?p, Returns ())"
    by (simp add: MySQLConnectionPool_def initialize_pool_def create_connection_def
          backend0_def pool_state_def queue_full_def)
  have h1: "(1::int) \<le> 2" and h2: "(0::int) \<le> 2" by simp_all
  have "?r \<noteq> []"
    using run_head [of ?p backend0 "[Connect, Counter 1]" "[Get, Get, Get, Release 0]"] by force
  then have "last ?r \<in> set ?r" by (rule last_in_set)
  with counter_never_exceeds_max [OF h1 h2 c, of "[Get, Get, Get, Release 0]"]
  have "current_connections (last ?r) \<le> 2" by blast
  with h1 h2 c run_example show ?thesis by blast
qed

text \<open>
  C1 as stated fails: \<open>min_connections = max_connections = -1\<close> satisfies its
  hypothesis, the constructor runs no iteration (the range is empty, the queue is
  unbounded) and leaves the counter at 0, above the maximum.
\<close>

theorem counter_exceeds_negative_max:
  "(- 1::int) \<le> - 1 \<and>
   max_connections (fst (snd (MySQLConnectionPool backend0 [] (- 1) (- 1) default_kw None 30)))
     < current_connections (fst (snd (MySQLConnectionPool backend0 [] (- 1) (- 1) default_kw None 30)))"
  by (simp add: MySQLConnectionPool_def initialize_pool_def)

section \<open>A dead session found by acquire\<close>

text \<open>
  C4, as amended. When the non-blocking pop yields a session whose probe fails, the
  session is closed without any write of the counter, and the replacement is created
  right there: outside the lock, with no check against the maximum. When that creation
  succeeds the replacement is returned; the counter is as it was.
\<close>

theorem get_connection_replaces_in_place:
  assumes "connection_queue p = s # rest"
    and "ping_at b (length t) s = Some e"
    and "connect_at b (length t + 2) = Inr c"
  shows "get_connection b t p =
     (t @ [Ping s False, Close s, Connect], p\<lparr>connection_queue := rest\<rparr>, Inr c)"
  using assms
  by (simp add: get_connection_def validate_or_recreate_def is_connection_valid_def ping_def
        close_quietly_def close_def create_connection_def)

theorem get_connection_replaces_in_place_witness:
  "get_connection dead_backend [] (pool_state 3 2 [5, 6]) =
     ([Ping 5 False, Close 5, Connect], pool_state 3 2 [6], Inr 2)"
  using get_connection_replaces_in_place [of "pool_state 3 2 [5, 6]" 5 "[6]" dead_backend "[]"
      "OperationalError ''server has gone away''" 2]
  by (simp add: pool_state_def dead_backend_def backend0_def)

text \<open>
  C4 as stated fails: with the counter at the maximum 1 and the dead session 0 idle, the
  call never enters the lock and never writes the counter (the claim has it written to
  0 under the lock before the check).
\<close>

theorem fast_path_discard_skips_lock:
  "get_connection dead_backend [] (pool_state 1 1 [0]) =
     ([Ping 0 False, Close 0, Connect], pool_state 1 1 [], Inr 2) \<and>
   LockAcquire \<notin> set (fst (get_connection dead_backend [] (pool_state 1 1 [0]))) \<and>
   Counter 0 \<notin> set (fst (get_connection dead_backend [] (pool_state 1 1 [0])))"
  by (simp add: get_connection_def validate_or_recreate_def is_connection_valid_def ping_def
        close_quietly_def close_def create_connection_def pool_state_def dead_backend_def
        backend0_def)

text \<open>
  The wait path. With an empty queue and the counter not below the maximum,
  \<open>get_connection\<close> is the blocking wait. When the session that wait obtains fails the
  probe, it is closed and a replacement is created at once, with no write of the
  counter and no check against the maximum; when the creation succeeds the replacement
  is returned and the counter is as it was.
\<close>

lemma wait_path_replaces_in_place:
  "(connection_queue p = [] \<and> \<not> current_connections p < max_connections p \<longrightarrow>
      get_connection b t p = wait_for_release b (t @ [LockAcquire, LockRelease]) p) \<and>
   (queue_get_timeout b t p = Inr (s, p1) \<and> ping_at b (length t) s = Some e \<and>
    connect_at b (length t + 2) = Inr c \<longrightarrow>
      wait_for_release b t p = (t @ [Ping s False, Close s, Connect], p1, Inr c) \<and>
      current_connections p1 = current_connections p)"
  by (auto simp: get_connection_def grow_or_wait_def wait_for_release_def
        validate_or_recreate_def is_connection_valid_def ping_def
        close_quietly_def close_def create_connection_def queue_get_timeout_def
        split: if_splits list.splits option.splits)

lemma wait_path_replaces_in_place_example:
  "get_connection arrival_backend [] (pool_state 1 1 []) =
     ([LockAcquire, LockRelease, Ping 7 False, Close 7, Connect], pool_state 1 1 [], Inr 4)"
  using wait_path_replaces_in_place [of "pool_state 1 1 []" arrival_backend "[]" 7 "pool_state 1 1 []"
      "OperationalError ''server has gone away''" 4]
    wait_path_replaces_in_place [of "pool_state 1 1 []" arrival_backend "[LockAcquire, LockRelease]" 7
      "pool_state 1 1 []" "OperationalError ''server has gone away''" 4]
  by (simp add: pool_state_def arrival_backend_def dead_backend_def backend0_def
        queue_get_timeout_def)

text \<open>
  C5 at a pool of exactly two sessions, both idle, after the server has gone away. The
  fast path discards session 0, cannot replace it, and the counter being at the maximum
  the call waits; the wait obtains session 2 at once, finds it dead and closes it; the
  ConnectionError of the failed replacement is caught by the handler written for the
  timeout and leaves as PoolExhaustedError with the timeout text, where the claim has
  ConnectionError. The counter is still 2 with no session open. On the same pool with a
  maximum of three, the locked section surfaces the same failure as ConnectionError.
\<close>

theorem wait_path_failure_is_exhaustion:
  "MySQLConnectionPool outage_backend [] 2 2 default_kw None 30 =
     ([Connect, Counter 1, Connect, Counter 2],
      (pool_state 2 2 [0, 2])\<lparr>min_connections := 2\<rparr>, Returns ()) \<and>
   get_connection outage_backend [Connect, Counter 1, Connect, Counter 2]
       ((pool_state 2 2 [0, 2])\<lparr>min_connections := 2\<rparr>) =
     ([Connect, Counter 1, Connect, Counter 2, Ping 0 False, Close 0, Connect,
       LockAcquire, LockRelease, Ping 2 False, Close 2, Connect],
      (pool_state 2 2 [])\<lparr>min_connections := 2\<rparr>,
      Inl (PoolExhaustedError ''pool exhausted, cannot get a connection, timeout: 30s'')) \<and>
   get_connection outage_backend [Connect, Counter 1, Connect, Counter 2]
       ((pool_state 3 2 [0, 2])\<lparr>min_connections := 2\<rparr>) =
     ([Connect, Counter 1, Connect, Counter 2, Ping 0 False, Close 0, Connect,
       LockAcquire, Connect, LockRelease],
      (pool_state 3 2 [2])\<lparr>min_connections := 2\<rparr>,
      Inl (ConnectionError (''create new connection failed: ''
             @ ''create connection failed - operational error: cannot connect'')))"
  by (simp add: MySQLConnectionPool_def initialize_pool_def eval_nat_numeral
        get_connection_def grow_or_wait_def wait_for_release_def
        validate_or_recreate_def is_connection_valid_def ping_def
        close_quietly_def close_def create_connection_def queue_get_timeout_def queue_full_def
        exhausted_message_def str_int_30
        pool_state_def outage_backend_def dead_backend_def backend0_def)

section \<open>A failed replacement in the fast path\<close>

lemma length_removeAll_less: "s \<in> set xs \<Longrightarrow> length (removeAll s xs) < length xs"
  by (induction xs) (auto simp: less_Suc_eq_le length_removeAll_less_eq)

text \<open>
  C10. When the non-blocking pop yields a dead session and creating its replacement
  fails, the ConnectionError is caught and the call goes on in the handler that an empty
  queue reaches, with the dead session gone from the queue. When the counter is below the
  maximum and the second creation succeeds, the counter has been incremented and never
  decremented: the open sessions are the old ones without the discarded one plus the new
  one, so a counter that was not below their number is now above it.
\<close>

theorem fast_path_failure_overcounts:
  assumes "connection_queue p = s # rest"
    and "ping_at b (length t) s = Some e"
    and "connect_at b (length t + 2) = Inl e1"
  shows
    "get_connection b t p =
       grow_or_wait b (t @ [Ping s False, Close s, Connect]) (p\<lparr>connection_queue := rest\<rparr>) \<and>
     get_connection b t (p\<lparr>connection_queue := []\<rparr>) = grow_or_wait b t (p\<lparr>connection_queue := []\<rparr>) \<and>
     (current_connections p < max_connections p \<and> connect_at b (length t + 4) = Inr c \<longrightarrow>
        get_connection b t p =
          (t @ [Ping s False, Close s, Connect, LockAcquire, Connect,
                Counter (current_connections p + 1), LockRelease],
           p\<lparr>connection_queue := rest, current_connections := current_connections p + 1\<rparr>,
           Inr c) \<and>
        live_sessions b (fst (get_connection b t p)) = removeAll s (live_sessions b t) @ [c] \<and>
        (s \<in> set (live_sessions b t) \<and> int (length (live_sessions b t)) \<le> current_connections p \<longrightarrow>
           int (length (live_sessions b (fst (get_connection b t p))))
             < current_connections (fst (snd (get_connection b t p)))))"
proof -
  let ?t1 = "t @ [Ping s False, Close s, Connect]"
  let ?p1 = "p\<lparr>connection_queue := rest\<rparr>"
  have a: "get_connection b t p = grow_or_wait b ?t1 ?p1"
    using assms
    by (simp add: get_connection_def validate_or_recreate_def is_connection_valid_def ping_def
        close_quietly_def close_def create_connection_def)
  have b: "get_connection b t (p\<lparr>connection_queue := []\<rparr>) = grow_or_wait b t (p\<lparr>connection_queue := []\<rparr>)"
    by (simp add: get_connection_def)
  have n4: "length t + 4 = Suc (Suc (Suc (Suc (length t))))" by simp
  have c: "get_connection b t p =
          (t @ [Ping s False, Close s, Connect, LockAcquire, Connect,
                Counter (current_connections p + 1), LockRelease],
           p\<lparr>connection_queue := rest, current_connections := current_connections p + 1\<rparr>,
           Inr c)"
    if "current_connections p < max_connections p" "connect_at b (length t + 4) = Inr c"
    using that unfolding n4 by (simp add: a grow_or_wait_def create_connection_def)
  have d: "live_sessions b (t @ [Ping s False, Close s, Connect, LockAcquire, Connect,
                Counter (current_connections p + 1), LockRelease])
            = removeAll s (live_sessions b t) @ [c]"
    if "connect_at b (length t + 4) = Inr c"
    using that assms(3) unfolding n4 by (simp add: live_sessions_append)
  show ?thesis
    using a b c d length_removeAll_less [of s "live_sessions b t"] by auto
qed

text \<open>
  A pool of one to two sessions whose only session dies: after the call the counter is 2
  and one session is open.
\<close>

theorem fast_path_failure_overcounts_witness:
  "MySQLConnectionPool flaky_backend [] 1 2 default_kw None 30 =
     ([Connect, Counter 1], (pool_state 2 1 [0])\<lparr>min_connections := 1\<rparr>, Returns ()) \<and>
   get_connection flaky_backend [Connect, Counter 1] ((pool_state 2 1 [0])\<lparr>min_connections := 1\<rparr>) =
     ([Connect, Counter 1, Ping 0 False, Close 0, Connect, LockAcquire, Connect, Counter 2, LockRelease],
      (pool_state 2 2 [])\<lparr>min_connections := 1\<rparr>, Inr 6) \<and>
   live_sessions flaky_backend
     [Connect, Counter 1, Ping 0 False, Close 0, Connect, LockAcquire, Connect, Counter 2, LockRelease] = [6]"
proof -
  let ?p = "(pool_state 2 1 [0])\<lparr>min_connections := 1\<rparr>"
  let ?t = "[Connect, Counter 1]"
  have init: "MySQLConnectionPool flaky_backend [] 1 2 default_kw None 30 = (?t, ?p, Returns ())"
    by (simp add: MySQLConnectionPool_def initialize_pool_def create_connection_def queue_full_def
        pool_state_def flaky_backend_def dead_backend_def backend0_def)
  have h1: "connection_queue ?p = 0 # []"
    by (simp add: pool_state_def)
  have h2: "ping_at flaky_backend (length ?t) 0 = Some (OperationalError ''server has gone away'')"
    by (simp add: flaky_backend_def dead_backend_def backend0_def)
  have h3: "connect_at flaky_backend (length ?t + 2) = Inl (OperationalError ''cannot connect'')"
    by (simp add: flaky_backend_def dead_backend_def backend0_def)
  have h4: "current_connections ?p < max_connections ?p \<and> connect_at flaky_backend (length ?t + 4) = Inr 6"
    by (simp add: pool_state_def flaky_backend_def dead_backend_def backend0_def)
  have l: "live_sessions flaky_backend ?t = [0]"
    by (simp add: live_sessions_def flaky_backend_def)
  from fast_path_failure_overcounts [OF h1 h2 h3, of 6] h4
  have g: "get_connection flaky_backend ?t ?p =
          (?t @ [Ping 0 False, Close 0, Connect, LockAcquire, Connect,
                Counter (current_connections ?p + 1), LockRelease],
           ?p\<lparr>connection_queue := [], current_connections := current_connections ?p + 1\<rparr>,
           Inr 6)"
    and v: "live_sessions flaky_backend (fst (get_connection flaky_backend ?t ?p)) =
          removeAll 0 (live_sessions flaky_backend ?t) @ [6]"
    by blast+
  from g have g': "get_connection flaky_backend ?t ?p =
     ([Connect, Counter 1, Ping 0 False, Close 0, Connect, LockAcquire, Connect, Counter 2, LockRelease],
      (pool_state 2 2 [])\<lparr>min_connections := 1\<rparr>, Inr 6)"
    by (simp add: pool_state_def)
  from v have "live_sessions flaky_backend
     [Connect, Counter 1, Ping 0 False, Close 0, Connect, LockAcquire, Connect, Counter 2, LockRelease] = [6]"
    unfolding g' l by simp
  with init g' show ?thesis by blast
qed

section \<open>Statements and configuration\<close>

text \<open>
  C2 at a freshly constructed pool with one idle live session: the \<open>execute_query\<close>
  the class ends up with reads \<open>self.connection\<close>, finds the scoped helper itself,
  fails on its missing \<open>cursor\<close> and raises QueryError; it touches neither the idle queue
  nor the backend. The first definition, on the same pool, acquires session 0, runs the
  statement on it, releases it and returns the rows.
\<close>

theorem execute_query_bypasses_pool:
  "MySQLConnectionPool backend0 [] 1 2 default_kw None 30 =
     ([Connect, Counter 1], (pool_state 2 1 [0])\<lparr>min_connections := 1\<rparr>, Returns ()) \<and>
   execute_query backend0 [Connect, Counter 1] ((pool_state 2 1 [0])\<lparr>min_connections := 1\<rparr>)
       ''SELECT 1'' [] =
     ([Connect, Counter 1], (pool_state 2 1 [0])\<lparr>min_connections := 1\<rparr>,
      Inl (QueryError ''query failed: function object has no attribute cursor'')) \<and>
   execute_query_pooled backend0 [Connect, Counter 1] ((pool_state 2 1 [0])\<lparr>min_connections := 1\<rparr>)
       ''SELECT 1'' [] =
     ([Connect, Counter 1, Ping 0 False, Execute 0 ''SELECT 1'' [], Fetchall 0, Ping 0 False],
      (pool_state 2 1 [0])\<lparr>min_connections := 1\<rparr>, Returns [])"
  by (simp add: MySQLConnectionPool_def initialize_pool_def execute_query_def
      ensure_connected_def execute_query_pooled_def create_connection_def
      get_connection_def validate_or_recreate_def is_connection_valid_def ping_def
      release_connection_def release_try_def queue_full_def
      with_connection_def execute_def fetchall_def fetch_rows_def backend0_def pool_state_def)

text \<open>
  C8 at a JSON object without the key host: the first definition raises ValueError
  before anything is constructed; the \<open>from_config_file\<close> the class ends up with
  constructs the pool, with five connects and the default host.
\<close>

theorem from_config_file_skips_validation:
  "from_config_file_validating backend0 [] ''db.json'' (Json config_without_host) 5 20 =
     ([], Raises (ValueError ''config file lacks required item: host'')) \<and>
   fst (from_config_file backend0 [] ''db.json'' (Json config_without_host)) =
     [Connect, Counter 1, Connect, Counter 2, Connect, Counter 3, Connect, Counter 4,
      Connect, Counter 5] \<and>
   map_outcome connection_queue (snd (from_config_file backend0 [] ''db.json'' (Json config_without_host))) =
     Returns [0, 2, 4, 6, 8] \<and>
   map_outcome (\<lambda>p. config p ''host'')
       (snd (from_config_file backend0 [] ''db.json'' (Json config_without_host))) =
     Returns (Some (Str ''localhost''))"
  by (simp add: from_config_file_validating_def from_config_file_def required_fields_def
      config_without_host_def construct_def MySQLConnectionPool_def initialize_pool_def
      default_kw_def eval_nat_numeral create_connection_def queue_full_def backend0_def)

text \<open>
  C7 at a freshly constructed pool with one idle live session: the \<open>execute_update\<close>
  the class ends up with reads \<open>self.connection\<close>, finds the scoped helper itself,
  fails on its missing \<open>cursor\<close>, and its handler fails in turn on the missing
  \<open>rollback\<close>: the call leaves with a bare AttributeError, not an UpdateError, and
  touches neither the idle queue nor the backend. The first definition, on the same pool,
  acquires session 0, executes and commits on it, releases it and returns the
  affected-row count.
\<close>

theorem execute_update_bypasses_pool:
  "MySQLConnectionPool backend0 [] 1 2 default_kw None 30 =
     ([Connect, Counter 1], (pool_state 2 1 [0])\<lparr>min_connections := 1\<rparr>, Returns ()) \<and>
   execute_update backend0 [Connect, Counter 1] ((pool_state 2 1 [0])\<lparr>min_connections := 1\<rparr>)
       ''INSERT INTO t VALUES (1)'' [] =
     ([Connect, Counter 1], (pool_state 2 1 [0])\<lparr>min_connections := 1\<rparr>,
      Inl (AttributeError ''function object has no attribute rollback'')) \<and>
   execute_update_pooled backend0 [Connect, Counter 1] ((pool_state 2 1 [0])\<lparr>min_connections := 1\<rparr>)
       ''INSERT INTO t VALUES (1)'' [] =
     ([Connect, Counter 1, Ping 0 False, Execute 0 ''INSERT INTO t VALUES (1)'' [], Commit 0,
       Ping 0 False],
      (pool_state 2 1 [0])\<lparr>min_connections := 1\<rparr>, Returns 1)"
  by (simp add: MySQLConnectionPool_def initialize_pool_def execute_update_def
      ensure_connected_def execute_update_pooled_def create_connection_def
      get_connection_def validate_or_recreate_def is_connection_valid_def ping_def
      release_connection_def release_try_def queue_full_def
      with_connection_def execute_def commit_def execute_commit_def update_on_def
      backend0_def pool_state_def)

text \<open>
  The first definition of \<open>execute_update\<close> does not guard its rollback either: when
  the statement violates a constraint and the rollback fails, the UpdateError it raises
  carries the text of the rollback failure, not that of the violation.
\<close>

lemma rollback_failure_masks_error:
  "execute_update_pooled failing_rollback_backend [] (pool_state 2 1 [0]) ''INSERT'' [] =
     ([Ping 0 False, Execute 0 ''INSERT'' [], Rollback 0, Ping 0 False], pool_state 2 1 [0],
      Raises (UpdateError ''update operation exception: server has gone away'')) \<and>
   execute_update failing_rollback_backend [] (pool_state 2 1 [0]) ''INSERT'' [] =
     ([], pool_state 2 1 [0], Inl (AttributeError ''function object has no attribute rollback''))"
  by (simp add: execute_update_pooled_def execute_update_def ensure_connected_def
      get_connection_def validate_or_recreate_def is_connection_valid_def ping_def
      release_connection_def release_try_def queue_full_def
      with_connection_def execute_def commit_def rollback_def execute_commit_def update_on_def
      backend0_def integrity_backend_def failing_rollback_backend_def pool_state_def)

lemma release_connection_returns:
  "\<not> queue_full p \<Longrightarrow> snd (snd (release_connection b t p s)) = Returns ()"
  by (simp add: release_connection_def release_try_def is_connection_valid_def ping_def
      split: option.splits)

lemma with_connection_released:
  assumes "get_connection b t p = (t1, p1, Inr conn)" and "\<not> queue_full p1"
    and "body t1 conn = (t2, r)"
  shows "fst (with_connection body b t p) = fst (release_connection b t2 p1 conn) \<and>
         snd (snd (with_connection body b t p)) = (case r of Inl e \<Rightarrow> Raises e | Inr v \<Rightarrow> Returns v)"
proof -
  obtain t3 p3 where "release_connection b t2 p1 conn = (t3, p3, Returns ())"
    using release_connection_returns [OF assms(2), of b t2 conn]
    by (cases "release_connection b t2 p1 conn") auto
  with assms(1,3) show ?thesis by (simp add: with_connection_def)
qed

text \<open>
  The first definition of \<open>execute_update\<close> (lines 395-435) in general. Once a
  session is acquired (and the queue has room to take it back), the statement is executed
  and committed, the session is released and the affected-row count returned. When the
  execute or the commit fails, the rollback is called next; when the rollback succeeds
  the session is released and UpdateError is raised, its text alone telling an integrity
  violation from another failure. When the rollback fails it is not absorbed: the session
  is released and the UpdateError raised is built from the rollback's failure.
\<close>

lemma execute_update_pooled_behaviour:
  assumes "get_connection b t p = (t1, p1, Inr conn)" and "\<not> queue_full p1"
  shows
    "(execute_commit b t1 conn q ps = (t2, Inr n) \<longrightarrow>
        t2 = t1 @ [Execute conn q ps, Commit conn] \<and>
        fst (execute_update_pooled b t p q ps) = fst (release_connection b t2 p1 conn) \<and>
        snd (snd (execute_update_pooled b t p q ps)) = Returns n) \<and>
     (execute_commit b t1 conn q ps = (t2, Inl e) \<and> rollback_at b (length t2) conn = None \<longrightarrow>
        fst (execute_update_pooled b t p q ps) =
          fst (release_connection b (t2 @ [Rollback conn]) p1 conn) \<and>
        snd (snd (execute_update_pooled b t p q ps)) = Raises (UpdateError (update_failed_pooled e))) \<and>
     (execute_commit b t1 conn q ps = (t2, Inl e) \<and> rollback_at b (length t2) conn = Some e2 \<longrightarrow>
        fst (execute_update_pooled b t p q ps) =
          fst (release_connection b (t2 @ [Rollback conn]) p1 conn) \<and>
        snd (snd (execute_update_pooled b t p q ps)) = Raises (update_wrap e2))"
proof (intro conjI impI)
  assume ok: "execute_commit b t1 conn q ps = (t2, Inr n)"
  then show "t2 = t1 @ [Execute conn q ps, Commit conn]"
    by (auto simp: execute_commit_def execute_def commit_def split: sum.splits option.splits)
  from ok have body: "update_on b t1 conn q ps = (t2, Inr n)" by (simp add: update_on_def)
  from with_connection_released [where body = "\<lambda>t1 conn. update_on b t1 conn q ps", OF assms body]
  show "fst (execute_update_pooled b t p q ps) = fst (release_connection b t2 p1 conn)"
    and "snd (snd (execute_update_pooled b t p q ps)) = Returns n"
    by (auto simp: execute_update_pooled_def split: prod.splits outcome.splits)
next
  assume "execute_commit b t1 conn q ps = (t2, Inl e) \<and> rollback_at b (length t2) conn = None"
  then have body: "update_on b t1 conn q ps = (t2 @ [Rollback conn], Inl (UpdateError (update_failed_pooled e)))"
    by (simp add: update_on_def rollback_def)
  from with_connection_released [where body = "\<lambda>t1 conn. update_on b t1 conn q ps", OF assms body]
  show "fst (execute_update_pooled b t p q ps) = fst (release_connection b (t2 @ [Rollback conn]) p1 conn)"
    by (auto simp: execute_update_pooled_def split: prod.splits outcome.splits)
next
  assume "execute_commit b t1 conn q ps = (t2, Inl e) \<and> rollback_at b (length t2) conn = None"
  then have body: "update_on b t1 conn q ps = (t2 @ [Rollback conn], Inl (UpdateError (update_failed_pooled e)))"
    by (simp add: update_on_def rollback_def)
  from with_connection_released [where body = "\<lambda>t1 conn. update_on b t1 conn q ps", OF assms body]
  show "snd (snd (execute_update_pooled b t p q ps)) = Raises (UpdateError (update_failed_pooled e))"
    by (auto simp: execute_update_pooled_def split: prod.splits outcome.splits)
next
  assume "execute_commit b t1 conn q ps = (t2, Inl e) \<and> rollback_at b (length t2) conn = Some e2"
  then have body: "update_on b t1 conn q ps = (t2 @ [Rollback conn], Inl e2)"
    by (simp add: update_on_def rollback_def)
  from with_connection_released [where body = "\<lambda>t1 conn. update_on b t1 conn q ps", OF assms body]
  show "fst (execute_update_pooled b t p q ps) = fst (release_connection b (t2 @ [Rollback conn]) p1 conn)"
    by (auto simp: execute_update_pooled_def split: prod.splits outcome.splits)
next
  assume "execute_commit b t1 conn q ps = (t2, Inl e) \<and> rollback_at b (length t2) conn = Some e2"
  then have body: "update_on b t1 conn q ps = (t2 @ [Rollback conn], Inl e2)"
    by (simp add: update_on_def rollback_def)
  from with_connection_released [where body = "\<lambda>t1 conn. update_on b t1 conn q ps", OF assms body]
  show "snd (snd (execute_update_pooled b t p q ps)) = Raises (update_wrap e2)"
    by (auto simp: execute_update_pooled_def split: prod.splits outcome.splits)
qed


text \<open>A delete that succeeds, one that violates a constraint, one whose rollback fails as well.\<close>

lemma execute_update_pooled_behaviour_example:
  "fst (execute_update_pooled backend0 [] (pool_state 3 1 [4]) ''DELETE FROM t'' []) =
     [Ping 4 False, Execute 4 ''DELETE FROM t'' [], Commit 4, Ping 4 False] \<and>
   snd (snd (execute_update_pooled backend0 [] (pool_state 3 1 [4]) ''DELETE FROM t'' [])) = Returns 1 \<and>
   fst (execute_update_pooled integrity_backend [] (pool_state 3 1 [4]) ''DELETE FROM t'' []) =
     [Ping 4 False, Execute 4 ''DELETE FROM t'' [], Rollback 4, Ping 4 False] \<and>
   snd (snd (execute_update_pooled integrity_backend [] (pool_state 3 1 [4]) ''DELETE FROM t'' [])) =
     Raises (UpdateError ''data integrity error: duplicate entry'') \<and>
   snd (snd (execute_update_pooled failing_rollback_backend [] (pool_state 3 1 [4]) ''DELETE FROM t'' [])) =
     Raises (UpdateError ''update operation exception: server has gone away'')"
proof -
  let ?q = "''DELETE FROM t''"
  let ?t1 = "[Ping 4 False]"
  let ?p1 = "pool_state 3 1 []"
  have room: "\<not> queue_full ?p1"
    by (simp add: queue_full_def pool_state_def)
  have a0: "get_connection backend0 [] (pool_state 3 1 [4]) = (?t1, ?p1, Inr 4)"
    and a1: "get_connection integrity_backend [] (pool_state 3 1 [4]) = (?t1, ?p1, Inr 4)"
    and a2: "get_connection failing_rollback_backend [] (pool_state 3 1 [4]) = (?t1, ?p1, Inr 4)"
    by (simp_all add: get_connection_def validate_or_recreate_def is_connection_valid_def ping_def
        backend0_def integrity_backend_def failing_rollback_backend_def pool_state_def)
  have e0: "execute_commit backend0 ?t1 4 ?q [] = ([Ping 4 False, Execute 4 ?q [], Commit 4], Inr 1)"
    and e1: "execute_commit integrity_backend ?t1 4 ?q [] =
        ([Ping 4 False, Execute 4 ?q []], Inl (IntegrityError ''duplicate entry''))
      \<and> rollback_at integrity_backend (length [Ping 4 False, Execute 4 ?q []]) 4 = None"
    and e2: "execute_commit failing_rollback_backend ?t1 4 ?q [] =
        ([Ping 4 False, Execute 4 ?q []], Inl (IntegrityError ''duplicate entry''))
      \<and> rollback_at failing_rollback_backend (length [Ping 4 False, Execute 4 ?q []]) 4 =
          Some (OperationalError ''server has gone away'')"
    by (simp_all add: execute_commit_def execute_def commit_def
        backend0_def integrity_backend_def failing_rollback_backend_def pool_state_def)
  have r0: "fst (release_connection backend0 [Ping 4 False, Execute 4 ?q [], Commit 4] ?p1 4) =
        [Ping 4 False, Execute 4 ?q [], Commit 4, Ping 4 False]"
    and r1: "fst (release_connection integrity_backend ([Ping 4 False, Execute 4 ?q []] @ [Rollback 4]) ?p1 4) =
        [Ping 4 False, Execute 4 ?q [], Rollback 4, Ping 4 False]"
    by (simp_all add: release_connection_def release_try_def is_connection_valid_def ping_def
        queue_full_def backend0_def integrity_backend_def pool_state_def)
  from execute_update_pooled_behaviour [OF a0 room, of ?q "[]"] e0
  have w0: "fst (execute_update_pooled backend0 [] (pool_state 3 1 [4]) ?q []) =
        fst (release_connection backend0 [Ping 4 False, Execute 4 ?q [], Commit 4] ?p1 4)"
      "snd (snd (execute_update_pooled backend0 [] (pool_state 3 1 [4]) ?q [])) = Returns 1"
    by blast+
  from execute_update_pooled_behaviour [OF a1 room, of ?q "[]"] e1
  have w1: "fst (execute_update_pooled integrity_backend [] (pool_state 3 1 [4]) ?q []) =
        fst (release_connection integrity_backend ([Ping 4 False, Execute 4 ?q []] @ [Rollback 4]) ?p1 4)"
      "snd (snd (execute_update_pooled integrity_backend [] (pool_state 3 1 [4]) ?q [])) =
        Raises (UpdateError (update_failed_pooled (IntegrityError ''duplicate entry'')))"
    by blast+
  from execute_update_pooled_behaviour [OF a2 room, of ?q "[]"] e2
  have w2: "snd (snd (execute_update_pooled failing_rollback_backend [] (pool_state 3 1 [4]) ?q [])) =
        Raises (update_wrap (OperationalError ''server has gone away''))"
    by blast
  show ?thesis
    using w0 w1 w2 r0 r1 by simp
qed


text \<open>
  The later definitions: on a pool whose \<open>self.connection\<close> holds a session they run
  on that session alone, and a failing rollback leaves in place of the UpdateError; on a
  pool as the constructor, acquire and release leave it, they reach no session at all.
\<close>

lemma execute_update_own_connection:
  assumes "connection p = Conn s"
  shows
    "(execute_commit b t s q ps = (t2, Inr n) \<longrightarrow> execute_update b t p q ps = (t2, p, Inr n)) \<and>
     (execute_commit b t s q ps = (t2, Inl e) \<and> rollback_at b (length t2) s = None \<longrightarrow>
        execute_update b t p q ps = (t2 @ [Rollback s], p, Inl (UpdateError (update_failed e)))) \<and>
     (execute_commit b t s q ps = (t2, Inl e) \<and> rollback_at b (length t2) s = Some e2 \<longrightarrow>
        execute_update b t p q ps = (t2 @ [Rollback s], p, Inl e2))"
  using assms by (simp add: execute_update_def ensure_connected_def rollback_def)

lemma constructor_leaves_attribute:
  "MySQLConnectionPool b t min_c max_c kw cfg timeout = (t1, p1, r) \<Longrightarrow> connection p1 = Method"
proof -
  have "initialize_loop b n t p = (t1, p1, r) \<Longrightarrow> connection p1 = connection p" for n p
    by (induction n arbitrary: t p)
       (auto simp: create_connection_def split: sum.splits if_splits)
  then show "MySQLConnectionPool b t min_c max_c kw cfg timeout = (t1, p1, r) \<Longrightarrow> connection p1 = Method"
    by (fastforce simp: MySQLConnectionPool_def initialize_pool_def)
qed

lemma pool_core_keeps_attribute:
  "get_connection b t p = (t1, p1, r) \<Longrightarrow> connection p1 = connection p"
  "release_connection b t p s = (t2, p2, r2) \<Longrightarrow> connection p2 = connection p"
  by (auto simp: get_connection_def grow_or_wait_def wait_for_release_def queue_get_timeout_def
      validate_or_recreate_def is_connection_valid_def ping_def close_quietly_def close_def
      create_connection_def release_connection_def release_try_def queue_full_def
      split: list.splits sum.splits prod.splits if_splits option.splits)

lemma execute_query_without_connection:
  "connection p = Method \<Longrightarrow>
     execute_query b t p q ps =
       (t, p, Inl (QueryError ''query failed: function object has no attribute cursor''))"
  by (simp add: execute_query_def ensure_connected_def)

lemma execute_update_without_connection:
  "connection p = Method \<Longrightarrow>
     execute_update b t p q ps =
       (t, p, Inl (AttributeError ''function object has no attribute rollback''))"
  by (simp add: execute_update_def ensure_connected_def)

end
